theory Spec2Isabelle
  imports Main "HOL-Library.Word" "HOL-Library.Sublist"
begin

section \<open>JavaScript strings\<close>

text \<open>
  A JavaScript string is a sequence of UTF-16 code units. String literals of the source
  that are plain ASCII are written with \<open>js\<close>, which maps each character to its code unit.
\<close>

type_synonym jsstring = "16 word list"

definition js :: "string \<Rightarrow> jsstring" where
  "js s = map (\<lambda>c. of_char c) s"

text \<open>
  \<open>String.prototype.trim\<close> strips the code units that ECMAScript calls WhiteSpace or
  LineTerminator from both ends: TAB, LF, VT, FF, CR, SPACE, NBSP, the Unicode space
  separators, LS, PS and the byte order mark.
\<close>

definition is_ws :: "16 word \<Rightarrow> bool" where
  "is_ws c \<longleftrightarrow>
     c = 0x0009 \<or> c = 0x000A \<or> c = 0x000B \<or> c = 0x000C \<or> c = 0x000D \<or> c = 0x0020 \<or>
     c = 0x00A0 \<or> c = 0x1680 \<or> (0x2000 \<le> c \<and> c \<le> 0x200A) \<or> c = 0x2028 \<or>
     c = 0x2029 \<or> c = 0x202F \<or> c = 0x205F \<or> c = 0x3000 \<or> c = 0xFEFF"

definition trim :: "jsstring \<Rightarrow> jsstring" where
  "trim s = rev (dropWhile is_ws (rev (dropWhile is_ws s)))"


section \<open>The component state of \<open>Home\<close>\<close>

text \<open>
  The six \<open>useState\<close> cells of \<open>Home\<close> (lines 39 to 44). \<open>error\<close> is
  \<open>string | null\<close>, so \<open>None\<close> is \<open>null\<close>.
\<close>

record home =
  bioInfo :: jsstring
  bioType :: jsstring
  biography :: jsstring
  loading :: bool
  copied :: bool
  error :: "jsstring option"

definition home0 :: home where
  "home0 = \<lparr>bioInfo = [], bioType = js ''professional'', biography = [],
            loading = False, copied = False, error = None\<rparr>"


section \<open>Prompt construction (lines 57 to 63)\<close>

text \<open>
  The conditional expression bound to \<open>prompt\<close>. Both template literals run over three
  source lines, so each holds two line feeds followed by the eleven blanks of the
  indentation; the first line of the professional template ends in a blank.
\<close>

definition prompt :: "jsstring \<Rightarrow> jsstring \<Rightarrow> jsstring" where
  "prompt bType bInfo =
     (if bType = js ''professional''
      then js ''Create a professional biography based on the following information: ''
           @ bInfo
           @ js (''. '' @ [CHR 0x0A] @
                 ''           The biography should be formal, highlight achievements, and be suitable for professional platforms like LinkedIn or company websites.''
                 @ [CHR 0x0A] @
                 ''           Include relevant accomplishments, experience, and expertise. Keep it between 150-300 words.'')
      else js ''Create an engaging social media bio based on the following information: ''
           @ bInfo
           @ js (''.'' @ [CHR 0x0A] @
                 ''           The bio should be concise, engaging, and perfect for platforms like Twitter, Instagram, or TikTok.''
                 @ [CHR 0x0A] @
                 ''           Make it catchy and memorable while highlighting key aspects. Keep it under 160 characters.''))"


section \<open>\<open>generateBiography\<close> (lines 46 to 73)\<close>

text \<open>
  What the awaited expression of lines 65 and 66 yields: either the text that
  \<open>result.response.text()\<close> returns, or a thrown value. The \<open>catch\<close> clause tells
  only whether the thrown value is an \<open>Error\<close> instance, whose \<open>message\<close> it then reads;
  \<open>NotAnError\<close> is every other thrown value (a string, a plain object), whatever it
  carries, since the clause reads nothing of it.
\<close>

datatype thrown = ErrorObj jsstring | NotAnError

datatype outcome = Resolves jsstring | Rejects thrown

definition config_message :: jsstring where
  "config_message = js ''API key not configured. Please add your Gemini API key to continue.''"

definition generic_message :: jsstring where
  "generic_message = js ''An error occurred while generating the biography''"

text \<open>The \<open>catch\<close> clause (lines 67 to 69) and the \<open>finally\<close> clause (lines 70 to 72).\<close>

definition on_catch :: "thrown \<Rightarrow> home \<Rightarrow> home" where
  "on_catch err h =
     h\<lparr>error := Some (case err of ErrorObj m \<Rightarrow> m | NotAnError \<Rightarrow> generic_message),
       biography := []\<rparr>"

definition on_finally :: "home \<Rightarrow> home" where
  "on_finally h = h\<lparr>loading := False\<rparr>"

text \<open>
  The whole system: the component state, the \<open>generateContent\<close> promises that have not
  settled yet (each with the prompt it was called with, oldest first), the number of
  \<open>generateContent\<close> calls made so far, the \<open>writeText\<close> promises that have not settled
  yet, the clipboard, a clock in milliseconds and the due times of the \<open>setTimeout\<close>
  callbacks that have not run yet.
\<close>

record sys =
  ui :: home
  pending :: "jsstring list"
  calls :: nat
  writes :: "jsstring list"
  clipboard :: jsstring
  clock :: nat
  timers :: "nat list"

definition sys0 :: sys where
  "sys0 = \<lparr>ui = home0, pending = [], calls = 0, writes = [], clipboard = [],
           clock = 0, timers = []\<rparr>"

text \<open>
  An \<open>async\<close> function runs synchronously up to its first \<open>await\<close>.
  \<open>generateBiography\<close> is that first part: the guard of line 47, the two setters of lines
  49 and 50, and then either the \<open>throw\<close> of line 53, which the \<open>catch\<close> and
  \<open>finally\<close> clauses handle at once, or the call of line 65, which leaves a promise
  pending. The imported constant \<open>genAI\<close> is the parameter \<open>genAI\<close>: \<open>False\<close> when
  it is \<open>null\<close>. \<open>getGenerativeModel\<close> of line 56 only builds the model object and is
  taken to return.
\<close>

definition generateBiography :: "bool \<Rightarrow> sys \<Rightarrow> sys" where
  "generateBiography genAI s =
     (if trim (bioInfo (ui s)) = [] then s
      else
        let h = (ui s)\<lparr>loading := True, error := None\<rparr> in
        if \<not> genAI
        then s\<lparr>ui := on_finally (on_catch (ErrorObj config_message) h)\<rparr>
        else s\<lparr>ui := h,
               pending := pending s @ [prompt (bioType (ui s)) (bioInfo (ui s))],
               calls := Suc (calls s)\<rparr>)"

text \<open>The rest of \<open>generateBiography\<close>, run when the awaited promise settles.\<close>

fun generateBiography_resume :: "outcome \<Rightarrow> home \<Rightarrow> home" where
  "generateBiography_resume (Resolves t) h = on_finally (h\<lparr>biography := trim t\<rparr>)"
| "generateBiography_resume (Rejects err) h = on_finally (on_catch err h)"


section \<open>\<open>copyToClipboard\<close> (lines 75 to 79)\<close>

text \<open>
  Up to the \<open>await\<close>: \<open>writeText\<close> is called with the biography of the current render.
\<close>

definition copyToClipboard :: "sys \<Rightarrow> sys" where
  "copyToClipboard s = s\<lparr>writes := writes s @ [biography (ui s)]\<rparr>"

text \<open>
  After the \<open>await\<close>: when the write succeeded, \<open>setCopied(true)\<close> and a new timer of
  2000 ms; no earlier timer is cleared. When the write was rejected the function ends
  there with the rejection.
\<close>

definition copyToClipboard_resume :: "bool \<Rightarrow> jsstring \<Rightarrow> sys \<Rightarrow> sys" where
  "copyToClipboard_resume ok written s =
     (if ok
      then s\<lparr>clipboard := written,
             ui := (ui s)\<lparr>copied := True\<rparr>,
             timers := timers s @ [clock s + 2000]\<rparr>
      else s)"

text \<open>The timer callback of line 78.\<close>

definition on_timeout :: "home \<Rightarrow> home" where
  "on_timeout h = h\<lparr>copied := False\<rparr>"


section \<open>The events of the page\<close>

text \<open>
  What can happen to the rendered page: the text area and the selector change their
  cells; a click on the generate button, which is disabled while
  \<open>loading || !bioInfo.trim()\<close> (line 123); a pending \<open>generateContent\<close> promise
  settles; a click on the copy button, which is rendered only while \<open>biography\<close> is
  truthy (line 148); a pending \<open>writeText\<close> promise settles; time passes, and the timers
  that have become due run.
\<close>

datatype event =
    Edit jsstring
  | Choose jsstring
  | ClickGenerate
  | Settle nat outcome
  | ClickCopy
  | WriteSettles nat bool
  | Advance nat

definition remove_nth :: "nat \<Rightarrow> 'a list \<Rightarrow> 'a list" where
  "remove_nth i xs = take i xs @ drop (Suc i) xs"

definition advance :: "nat \<Rightarrow> sys \<Rightarrow> sys" where
  "advance d s =
     (let now = clock s + d;
          due = filter (\<lambda>t. t \<le> now) (timers s)
      in s\<lparr>clock := now,
           timers := filter (\<lambda>t. \<not> t \<le> now) (timers s),
           ui := fold (\<lambda>_. on_timeout) due (ui s)\<rparr>)"

fun step :: "bool \<Rightarrow> event \<Rightarrow> sys \<Rightarrow> sys" where
  "step genAI (Edit v) s = s\<lparr>ui := (ui s)\<lparr>bioInfo := v\<rparr>\<rparr>"
| "step genAI (Choose v) s = s\<lparr>ui := (ui s)\<lparr>bioType := v\<rparr>\<rparr>"
| "step genAI ClickGenerate s =
     (if loading (ui s) \<or> trim (bioInfo (ui s)) = [] then s else generateBiography genAI s)"
| "step genAI (Settle i out) s =
     (if i < length (pending s)
      then s\<lparr>ui := generateBiography_resume out (ui s), pending := remove_nth i (pending s)\<rparr>
      else s)"
| "step genAI ClickCopy s = (if biography (ui s) = [] then s else copyToClipboard s)"
| "step genAI (WriteSettles i ok) s =
     (if i < length (writes s)
      then copyToClipboard_resume ok (writes s ! i) (s\<lparr>writes := remove_nth i (writes s)\<rparr>)
      else s)"
| "step genAI (Advance d) s = advance d s"

text \<open>The page after a sequence of events, the first event first.\<close>

definition run :: "bool \<Rightarrow> event list \<Rightarrow> sys \<Rightarrow> sys" where
  "run genAI es s = fold (step genAI) es s"

text \<open>
  What holds of every page reached through its events: at most one call is outstanding,
  \<open>loading\<close> is set exactly while one is, no error is stored while loading, and a stored
  error goes with an empty biography.
\<close>

definition page_inv :: "sys \<Rightarrow> bool" where
  "page_inv s \<longleftrightarrow>
     length (pending s) \<le> 1
     \<and> (loading (ui s) \<longleftrightarrow> pending s \<noteq> [])
     \<and> (loading (ui s) \<longrightarrow> error (ui s) = None)
     \<and> (error (ui s) \<noteq> None \<longrightarrow> biography (ui s) = [])"







section \<open>Facts about \<open>trim\<close>\<close>

lemma trim_all_ws: "list_all is_ws xs \<Longrightarrow> trim xs = []"
proof -
  assume "list_all is_ws xs"
  then have "dropWhile is_ws xs = []"
    by (induction xs) simp_all
  then show ?thesis
    by (simp only: trim_def rev.simps dropWhile.simps)
qed

lemma trim_decomp:
  "t = takeWhile is_ws t @ trim t @ rev (takeWhile is_ws (rev (dropWhile is_ws t)))"
proof -
  let ?u = "dropWhile is_ws t"
  have "rev (takeWhile is_ws (rev ?u) @ dropWhile is_ws (rev ?u)) = rev (rev ?u)"
    by (simp only: takeWhile_dropWhile_id)
  then have "?u = trim t @ rev (takeWhile is_ws (rev ?u))"
    by (simp only: rev_append rev_rev_ident trim_def)
  moreover have "t = takeWhile is_ws t @ ?u"
    by simp
  ultimately show ?thesis by metis
qed

lemma trim_hd: "trim t \<noteq> [] \<Longrightarrow> \<not> is_ws (hd (trim t))"
proof -
  assume ne: "trim t \<noteq> []"
  let ?u = "dropWhile is_ws t"
  let ?v = "dropWhile is_ws (rev ?u)"
  have v: "?v \<noteq> []" using ne by (simp add: trim_def)
  have u: "?u \<noteq> []"
  proof
    assume "?u = []"
    then have "?v = []" by (simp only: rev.simps dropWhile.simps)
    with v show False by simp
  qed
  have "hd (trim t) = last ?v" using v by (simp add: trim_def hd_rev)
  also have "\<dots> = last (rev ?u)" 
    using v by (metis takeWhile_dropWhile_id last_appendR)
  also have "\<dots> = hd ?u" using u by (simp add: last_rev)
  finally show ?thesis using u hd_dropWhile by metis
qed

lemma trim_last: "trim t \<noteq> [] \<Longrightarrow> \<not> is_ws (last (trim t))"
proof -
  assume ne: "trim t \<noteq> []"
  let ?v = "dropWhile is_ws (rev (dropWhile is_ws t))"
  have v: "?v \<noteq> []" using ne by (simp add: trim_def)
  have "last (trim t) = hd ?v" using v by (simp add: trim_def last_rev)
  then show ?thesis using v hd_dropWhile by metis
qed


section \<open>Evaluating the page\<close>

lemmas page_defs =
  run_def generateBiography_def on_catch_def on_finally_def copyToClipboard_def
  copyToClipboard_resume_def advance_def on_timeout_def remove_nth_def
  sys0_def home0_def trim_def is_ws_def js_def Let_def


section \<open>Timers\<close>

lemma fold_on_timeout:
  "fold (\<lambda>_. on_timeout) ts h = (if ts = [] then h else h\<lparr>copied := False\<rparr>)"
  by (induction ts arbitrary: h) (simp_all add: on_timeout_def)

lemma advance_ui:
  "ui (advance d s) =
     (if \<exists>t\<in>set (timers s). t \<le> clock s + d then (ui s)\<lparr>copied := False\<rparr> else ui s)"
  by (auto simp add: advance_def Let_def fold_on_timeout filter_empty_conv)


section \<open>The page without a provider client\<close>

lemma step_without_genAI:
  "calls (step False e s) = calls s \<and> length (pending (step False e s)) \<le> length (pending s)"
  by (cases e)
     (simp_all add: generateBiography_def copyToClipboard_def copyToClipboard_resume_def
        advance_def remove_nth_def Let_def)

lemma run_without_genAI:
  "calls (run False es s) = calls s \<and> length (pending (run False es s)) \<le> length (pending s)"
proof (induction es arbitrary: s)
  case Nil
  show ?case by (simp add: run_def)
next
  case (Cons e es)
  have "run False (e # es) s = run False es (step False e s)"
    by (simp add: run_def)
  then show ?case
    using Cons [of "step False e s"] step_without_genAI [of e s] by simp
qed


section \<open>The invariant of the page\<close>

lemma page_inv_sys0: "page_inv sys0"
  by (simp add: page_inv_def sys0_def home0_def)

lemma page_inv_generate:
  assumes "page_inv s" and "\<not> loading (ui s)"
  shows "page_inv (generateBiography genAI s)"
  using assms
  by (simp add: page_inv_def generateBiography_def on_catch_def on_finally_def Let_def)

lemma page_inv_settle:
  assumes "page_inv s" and "i < length (pending s)"
  shows "page_inv (s\<lparr>ui := generateBiography_resume out (ui s),
                     pending := remove_nth i (pending s)\<rparr>)"
proof -
  from assms have len: "length (pending s) = 1"
    by (simp add: page_inv_def)
  with assms have i: "i = 0" by simp
  from len have gone: "remove_nth 0 (pending s) = []"
    by (cases "pending s") (simp_all add: remove_nth_def)
  from assms len have quiet: "error (ui s) = None"
    by (auto simp add: page_inv_def)
  show ?thesis
    using gone quiet i
    by (cases out) (simp_all add: page_inv_def on_catch_def on_finally_def)
qed

lemma page_inv_step: "page_inv s \<Longrightarrow> page_inv (step genAI e s)"
proof (cases e)
  case ClickGenerate
  assume "page_inv s"
  then show ?thesis
    using ClickGenerate page_inv_generate [of s genAI] by simp
next
  case (Settle i out)
  assume "page_inv s"
  then show ?thesis
    using Settle page_inv_settle [of s i out] by simp
next
  case (Advance d)
  assume "page_inv s"
  then show ?thesis
    using Advance by (simp add: page_inv_def advance_ui) (simp add: advance_def Let_def)
qed (simp_all add: page_inv_def copyToClipboard_def copyToClipboard_resume_def)

lemma page_inv_run: "page_inv s \<Longrightarrow> page_inv (run genAI es s)"
proof (induction es arbitrary: s)
  case Nil
  then show ?case by (simp add: run_def)
next
  case (Cons e es)
  have "run genAI (e # es) s = run genAI es (step genAI e s)"
    by (simp add: run_def)
  then show ?case
    using Cons.IH [of "step genAI e s"] page_inv_step [OF Cons.prems, of genAI e] by simp
qed

lemma page_inv_reached: "page_inv (run genAI es sys0)"
  by (rule page_inv_run [OF page_inv_sys0])


section \<open>Numbering the calls\<close>









section \<open>Overlapping calls\<close>




section \<open>Result and error\<close>

text \<open>
  C2. In every state that the page reaches from its initial state through its events,
  the error is \<open>null\<close> or the biography is empty: never both populated. Both ways into
  the error state, the \<open>catch\<close> clause after a failed call and the missing client, empty
  the biography.
\<close>

theorem result_and_error_exclusive:
  "(error (ui (run genAI es sys0)) = None \<or> biography (ui (run genAI es sys0)) = [])
   \<and> biography (generateBiography_resume (Rejects err) h) = []
   \<and> (trim (bioInfo (ui s)) \<noteq> [] \<longrightarrow> biography (ui (generateBiography False s)) = [])"
proof (intro conjI)
  show "error (ui (run genAI es sys0)) = None \<or> biography (ui (run genAI es sys0)) = []"
    using page_inv_reached [of genAI es] by (auto simp add: page_inv_def)
  show "biography (generateBiography_resume (Rejects err) h) = []"
    by (simp add: on_catch_def on_finally_def)
  show "trim (bioInfo (ui s)) \<noteq> [] \<longrightarrow> biography (ui (generateBiography False s)) = []"
    by (simp add: generateBiography_def on_catch_def on_finally_def)
qed

theorem result_and_error_exclusive_witness:
  "error (ui (run True [Edit (js ''Ada''), ClickGenerate, Settle 0 (Resolves (js ''Bio'')),
                        ClickGenerate, Settle 0 (Rejects NotAnError)] sys0))
     = Some generic_message
   \<and> biography (ui (run True [Edit (js ''Ada''), ClickGenerate, Settle 0 (Resolves (js ''Bio'')),
                        ClickGenerate, Settle 0 (Rejects NotAnError)] sys0)) = []
   \<and> trim (bioInfo (ui (step False (Edit (js ''Ada'')) sys0))) \<noteq> []
   \<and> biography (ui (generateBiography False (step False (Edit (js ''Ada'')) sys0))) = []"
proof -
  have e: "error (ui (run True [Edit (js ''Ada''), ClickGenerate, Settle 0 (Resolves (js ''Bio'')),
                        ClickGenerate, Settle 0 (Rejects NotAnError)] sys0))
     = Some generic_message"
    by (simp add: page_defs)
  have ne: "trim (bioInfo (ui (step False (Edit (js ''Ada'')) sys0))) \<noteq> []"
    by (simp add: trim_def js_def is_ws_def)
  show ?thesis
    using result_and_error_exclusive
            [where genAI = True
               and es = "[Edit (js ''Ada''), ClickGenerate, Settle 0 (Resolves (js ''Bio'')),
                        ClickGenerate, Settle 0 (Rejects NotAnError)]"
               and s = "step False (Edit (js ''Ada'')) sys0"] e ne
    by simp
qed


section \<open>The prompt\<close>

text \<open>
  C3. The prompt is a function of \<open>bioType\<close> and \<open>bioInfo\<close> alone. For every
  \<open>rawInfo\<close> the professional prompt and the social prompt both contain \<open>rawInfo\<close> as it
  is; the professional one contains the phrase about 150-300 words, the social one the
  phrase about 160 characters, and the two prompts differ. When a submission is accepted
  and a provider client exists, the string handed to \<open>generateContent\<close> is this prompt.
\<close>

theorem prompt_embeds_info_and_style:
  "sublist rawInfo (prompt (js ''professional'') rawInfo)
   \<and> sublist (js ''Keep it between 150-300 words.'') (prompt (js ''professional'') rawInfo)
   \<and> sublist rawInfo (prompt (js ''social'') rawInfo)
   \<and> sublist (js ''Keep it under 160 characters.'') (prompt (js ''social'') rawInfo)
   \<and> prompt (js ''professional'') rawInfo \<noteq> prompt (js ''social'') rawInfo
   \<and> (trim (bioInfo (ui s)) \<noteq> [] \<longrightarrow>
        pending (generateBiography True s)
          = pending s @ [prompt (bioType (ui s)) (bioInfo (ui s))])"
proof (intro conjI)
  have ne: "js ''social'' \<noteq> js ''professional''"
    by (simp add: js_def)
  show "sublist rawInfo (prompt (js ''professional'') rawInfo)"
    unfolding prompt_def by (simp only: if_True refl sublist_appendI)
  show "sublist rawInfo (prompt (js ''social'') rawInfo)"
    unfolding prompt_def by (simp only: ne if_False sublist_appendI)
  have "suffix (js ''Keep it between 150-300 words.'') (prompt (js ''professional'') rawInfo)"
    unfolding prompt_def suffix_def
    by (rule exI [where x = "js ''Create a professional biography based on the following information: ''
           @ rawInfo
           @ js (''. '' @ [CHR 0x0A] @
                 ''           The biography should be formal, highlight achievements, and be suitable for professional platforms like LinkedIn or company websites.''
                 @ [CHR 0x0A] @
                 ''           Include relevant accomplishments, experience, and expertise. '')"])
       (simp add: js_def)
  then show "sublist (js ''Keep it between 150-300 words.'') (prompt (js ''professional'') rawInfo)"
    by (rule suffix_imp_sublist)
  have "suffix (js ''Keep it under 160 characters.'') (prompt (js ''social'') rawInfo)"
    unfolding prompt_def suffix_def
    by (rule exI [where x = "js ''Create an engaging social media bio based on the following information: ''
           @ rawInfo
           @ js (''.'' @ [CHR 0x0A] @
                 ''           The bio should be concise, engaging, and perfect for platforms like Twitter, Instagram, or TikTok.''
                 @ [CHR 0x0A] @
                 ''           Make it catchy and memorable while highlighting key aspects. '')"])
       (simp add: js_def)
  then show "sublist (js ''Keep it under 160 characters.'') (prompt (js ''social'') rawInfo)"
    by (rule suffix_imp_sublist)
  show "prompt (js ''professional'') rawInfo \<noteq> prompt (js ''social'') rawInfo"
    by (simp add: prompt_def js_def)
  show "trim (bioInfo (ui s)) \<noteq> [] \<longrightarrow>
        pending (generateBiography True s)
          = pending s @ [prompt (bioType (ui s)) (bioInfo (ui s))]"
    by (simp add: generateBiography_def Let_def)
qed

theorem prompt_embeds_info_and_style_witness:
  "sublist (js ''Ada'') (prompt (js ''professional'') (js ''Ada''))
   \<and> sublist (js ''Ada'') (prompt (js ''social'') (js ''Ada''))
   \<and> trim (bioInfo (ui (sys0\<lparr>ui := home0\<lparr>bioInfo := js ''Ada''\<rparr>\<rparr>))) \<noteq> []
   \<and> pending (generateBiography True (sys0\<lparr>ui := home0\<lparr>bioInfo := js ''Ada''\<rparr>\<rparr>))
       = [prompt (js ''professional'') (js ''Ada'')]"
proof -
  have ne: "trim (bioInfo (ui (sys0\<lparr>ui := home0\<lparr>bioInfo := js ''Ada''\<rparr>\<rparr>))) \<noteq> []"
    by (simp add: trim_def js_def is_ws_def)
  show ?thesis
    using prompt_embeds_info_and_style
            [of "js ''Ada''" "sys0\<lparr>ui := home0\<lparr>bioInfo := js ''Ada''\<rparr>\<rparr>"] ne
    by (simp add: sys0_def home0_def)
qed


section \<open>Blank input\<close>

text \<open>
  C4. When \<open>bioInfo\<close> is empty or holds white space only, \<open>generateBiography\<close> returns
  at line 47: the whole system is unchanged, so \<open>loading\<close>, \<open>biography\<close> and
  \<open>error\<close> keep their values and no \<open>generateContent\<close> call is made. The same holds
  of a click on the button.
\<close>

theorem blank_submission_is_noop:
  "list_all is_ws (bioInfo (ui s)) \<Longrightarrow>
     generateBiography genAI s = s \<and> step genAI ClickGenerate s = s"
  by (simp add: generateBiography_def trim_all_ws)

theorem blank_submission_is_noop_witness:
  "list_all is_ws (bioInfo (ui (sys0\<lparr>ui := home0\<lparr>bioInfo := js '' '' @ [0x2003, 0x0A]\<rparr>\<rparr>)))
   \<and> generateBiography True (sys0\<lparr>ui := home0\<lparr>bioInfo := js '' '' @ [0x2003, 0x0A]\<rparr>\<rparr>)
       = sys0\<lparr>ui := home0\<lparr>bioInfo := js '' '' @ [0x2003, 0x0A]\<rparr>\<rparr>
   \<and> step True ClickGenerate (sys0\<lparr>ui := home0\<lparr>bioInfo := js '' '' @ [0x2003, 0x0A]\<rparr>\<rparr>)
       = sys0\<lparr>ui := home0\<lparr>bioInfo := js '' '' @ [0x2003, 0x0A]\<rparr>\<rparr>"
proof -
  have ws: "list_all is_ws (bioInfo (ui (sys0\<lparr>ui := home0\<lparr>bioInfo := js '' '' @ [0x2003, 0x0A]\<rparr>\<rparr>)))"
    by (simp add: js_def is_ws_def)
  show ?thesis
    using blank_submission_is_noop [OF ws, of True] ws by simp
qed


section \<open>No provider client\<close>

text \<open>
  C5. When \<open>genAI\<close> is \<open>null\<close> and \<open>bioInfo\<close> is not blank, \<open>generateBiography\<close>
  ends at once with \<open>loading\<close> false, the biography empty and the error set to the
  message that the API key is not configured; nothing else changes, so no call is pending
  and none is counted. Starting from the initial page, whatever the events, the number of
  \<open>generateContent\<close> calls stays 0.
\<close>

theorem missing_credential_is_error:
  "trim (bioInfo (ui s)) \<noteq> [] \<Longrightarrow>
     generateBiography False s
       = s\<lparr>ui := (ui s)\<lparr>loading := False, error := Some config_message, biography := []\<rparr>\<rparr>
     \<and> (\<not> loading (ui s) \<longrightarrow> step False ClickGenerate s = generateBiography False s)
     \<and> calls (run False es sys0) = 0
     \<and> pending (run False es sys0) = []
     \<and> sublist (js ''API key not configured'') config_message"
proof (intro conjI)
  assume ne: "trim (bioInfo (ui s)) \<noteq> []"
  show "generateBiography False s
       = s\<lparr>ui := (ui s)\<lparr>loading := False, error := Some config_message, biography := []\<rparr>\<rparr>"
    using ne by (simp add: generateBiography_def on_catch_def on_finally_def)
  show "\<not> loading (ui s) \<longrightarrow> step False ClickGenerate s = generateBiography False s"
    using ne by simp
  show "calls (run False es sys0) = 0"
    using run_without_genAI [of es sys0] by (simp add: sys0_def)
  show "pending (run False es sys0) = []"
    using run_without_genAI [of es sys0] by (simp add: sys0_def)
  have "prefix (js ''API key not configured'') config_message"
    unfolding config_message_def prefix_def
    by (rule exI [where x = "js ''. Please add your Gemini API key to continue.''"])
       (simp add: js_def)
  then show "sublist (js ''API key not configured'') config_message"
    by (rule prefix_imp_sublist)
qed

theorem missing_credential_is_error_witness:
  "trim (bioInfo (ui (step False (Edit (js ''Ada'')) sys0))) \<noteq> []
   \<and> error (ui (generateBiography False (step False (Edit (js ''Ada'')) sys0)))
       = Some config_message
   \<and> \<not> loading (ui (generateBiography False (step False (Edit (js ''Ada'')) sys0)))
   \<and> calls (generateBiography False (step False (Edit (js ''Ada'')) sys0)) = 0
   \<and> \<not> loading (ui (step False (Edit (js ''Ada'')) sys0))
   \<and> step False ClickGenerate (step False (Edit (js ''Ada'')) sys0)
       = generateBiography False (step False (Edit (js ''Ada'')) sys0)
   \<and> calls (run False [Edit (js ''Ada''), ClickGenerate] sys0) = 0"
proof -
  have ne: "trim (bioInfo (ui (step False (Edit (js ''Ada'')) sys0))) \<noteq> []"
    by (simp add: trim_def js_def is_ws_def)
  show ?thesis
    using missing_credential_is_error
            [OF ne, of "[Edit (js ''Ada''), ClickGenerate]"] ne
    by (simp add: sys0_def home0_def)
qed


section \<open>A failed call\<close>

text \<open>
  C6, as the claim states it, fails. The \<open>catch\<close> clause asks whether the thrown value is
  an \<open>Error\<close> instance, not whether an explanation is at hand. An \<open>Error\<close> with an
  empty message gives no explanation, yet the empty message is stored and not the generic
  one. A thrown value that is not an \<open>Error\<close> instance, whatever it carries, stores the
  generic message, which does not contain \<open>rate limited\<close>.
\<close>

theorem provider_message_counterexample:
  "error (generateBiography_resume (Rejects (ErrorObj [])) home0) = Some []
   \<and> generic_message \<noteq> []
   \<and> error (generateBiography_resume (Rejects NotAnError) home0) = Some generic_message
   \<and> \<not> sublist (js ''rate limited'') generic_message"
  by (simp add: on_catch_def on_finally_def generic_message_def js_def sublist_code)

text \<open>
  C6, amended. When the awaited call throws, \<open>loading\<close> becomes false, the biography is
  emptied and the error is set: to the \<open>message\<close> of the thrown value when it is an
  \<open>Error\<close> instance, whatever that message is, and to the generic message \<open>An error
  occurred while generating the biography\<close> when it is not. A rejection with an \<open>Error\<close>
  whose message is \<open>rate limited\<close> stores an error that contains \<open>rate limited\<close>.
\<close>

theorem provider_failure_message:
  "generateBiography_resume (Rejects (ErrorObj m)) h
     = h\<lparr>error := Some m, biography := [], loading := False\<rparr>
   \<and> generateBiography_resume (Rejects NotAnError) h
     = h\<lparr>error := Some generic_message, biography := [], loading := False\<rparr>
   \<and> (i < length (pending s) \<longrightarrow>
        ui (step genAI (Settle i (Rejects err)) s)
          = (ui s)\<lparr>error := Some (case err of ErrorObj m \<Rightarrow> m | NotAnError \<Rightarrow> generic_message),
                   biography := [], loading := False\<rparr>)
   \<and> sublist (js ''rate limited'')
        (the (error (generateBiography_resume (Rejects (ErrorObj (js ''rate limited''))) h)))
   \<and> sublist (js ''An error occurred'') generic_message"
proof (intro conjI)
  show "generateBiography_resume (Rejects (ErrorObj m)) h
     = h\<lparr>error := Some m, biography := [], loading := False\<rparr>"
    by (simp add: on_catch_def on_finally_def)
  show "generateBiography_resume (Rejects NotAnError) h
     = h\<lparr>error := Some generic_message, biography := [], loading := False\<rparr>"
    by (simp add: on_catch_def on_finally_def)
  show "i < length (pending s) \<longrightarrow>
        ui (step genAI (Settle i (Rejects err)) s)
          = (ui s)\<lparr>error := Some (case err of ErrorObj m \<Rightarrow> m | NotAnError \<Rightarrow> generic_message),
                   biography := [], loading := False\<rparr>"
    by (simp add: on_catch_def on_finally_def)
  show "sublist (js ''rate limited'')
        (the (error (generateBiography_resume (Rejects (ErrorObj (js ''rate limited''))) h)))"
    by (simp add: on_catch_def on_finally_def)
  have "sublist (js ''An error occurred'') ([] @ js ''An error occurred'' @ js '' while generating the biography'')"
    by (rule sublist_appendI)
  then show "sublist (js ''An error occurred'') generic_message"
    by (simp add: generic_message_def js_def)
qed

theorem provider_failure_message_witness:
  "0 < length (pending (run True [Edit (js ''Ada''), ClickGenerate] sys0))
   \<and> error (ui (run True [Edit (js ''Ada''), ClickGenerate,
                           Settle 0 (Rejects (ErrorObj (js ''rate limited'')))] sys0))
       = Some (js ''rate limited'')
   \<and> \<not> loading (ui (run True [Edit (js ''Ada''), ClickGenerate,
                           Settle 0 (Rejects (ErrorObj (js ''rate limited'')))] sys0))"
proof -
  have len: "0 < length (pending (run True [Edit (js ''Ada''), ClickGenerate] sys0))"
    by (simp add: run_def generateBiography_def trim_def js_def is_ws_def sys0_def home0_def)
  have r: "run True [Edit (js ''Ada''), ClickGenerate,
                           Settle 0 (Rejects (ErrorObj (js ''rate limited'')))] sys0
         = step True (Settle 0 (Rejects (ErrorObj (js ''rate limited''))))
             (run True [Edit (js ''Ada''), ClickGenerate] sys0)"
    by (simp add: run_def)
  show ?thesis
    using provider_failure_message
            [of _ _ 0 "run True [Edit (js ''Ada''), ClickGenerate] sys0"
                True "ErrorObj (js ''rate limited'')"] len
    by (simp only: r) simp
qed


section \<open>The stored result\<close>

text \<open>
  C7. When the call resolves with text \<open>t\<close>, the stored biography is exactly
  \<open>trim t\<close>: \<open>t\<close> is \<open>trim t\<close> between a run of white space before it and a run of
  white space after it, and \<open>trim t\<close>, when it is not empty, neither starts nor ends with
  white space; so only surrounding white space is removed and the inner text is kept as
  it is. A response of two blanks, \<open>Hello world.\<close> and two blanks is stored as
  \<open>Hello world.\<close>.
\<close>

theorem resolved_text_is_trimmed:
  "biography (generateBiography_resume (Resolves t) h) = trim t
   \<and> (\<exists>pre post. t = pre @ trim t @ post \<and> list_all is_ws pre \<and> list_all is_ws post)
   \<and> (trim t \<noteq> [] \<longrightarrow> \<not> is_ws (hd (trim t)) \<and> \<not> is_ws (last (trim t)))
   \<and> biography (generateBiography_resume (Resolves (js ''  Hello world.  '')) h)
       = js ''Hello world.''"
proof (intro conjI)
  show "biography (generateBiography_resume (Resolves t) h) = trim t"
    by (simp add: on_finally_def)
  have "list_all is_ws (takeWhile is_ws t)"
    by (simp add: list_all_iff) (meson set_takeWhileD)
  moreover have "list_all is_ws (rev (takeWhile is_ws (rev (dropWhile is_ws t))))"
    by (simp add: list_all_iff) (meson set_takeWhileD)
  ultimately show "\<exists>pre post. t = pre @ trim t @ post \<and> list_all is_ws pre \<and> list_all is_ws post"
    using trim_decomp by blast
  show "trim t \<noteq> [] \<longrightarrow> \<not> is_ws (hd (trim t)) \<and> \<not> is_ws (last (trim t))"
    using trim_hd trim_last by blast
  show "biography (generateBiography_resume (Resolves (js ''  Hello world.  '')) h)
       = js ''Hello world.''"
    by (simp add: on_finally_def trim_def js_def is_ws_def)
qed

theorem resolved_text_is_trimmed_witness:
  "biography (generateBiography_resume (Resolves (js '' a  b ''))  home0) = js ''a  b''
   \<and> trim (js '' a  b '') \<noteq> []
   \<and> \<not> is_ws (hd (trim (js '' a  b ''))) \<and> \<not> is_ws (last (trim (js '' a  b '')))"
proof -
  have t: "trim (js '' a  b '') = js ''a  b''"
    by (simp add: trim_def js_def is_ws_def)
  then have ne: "trim (js '' a  b '') \<noteq> []"
    by (simp add: js_def)
  show ?thesis
    using resolved_text_is_trimmed [of "js '' a  b ''" home0] t ne by simp
qed


section \<open>The previous result during a new submission\<close>

text \<open>
  C8, as the claim states it, fails: after a biography has been stored, a second accepted
  submission leaves the page loading, with its call pending, and the old biography still
  stored.
\<close>

theorem submission_keeps_result_counterexample:
  "loading (ui (run True [Edit (js ''Ada''), ClickGenerate, Settle 0 (Resolves (js ''Old bio'')),
                          ClickGenerate] sys0))
   \<and> pending (run True [Edit (js ''Ada''), ClickGenerate, Settle 0 (Resolves (js ''Old bio'')),
                          ClickGenerate] sys0) = [prompt (js ''professional'') (js ''Ada'')]
   \<and> biography (ui (run True [Edit (js ''Ada''), ClickGenerate,
                              Settle 0 (Resolves (js ''Old bio'')), ClickGenerate] sys0))
       = js ''Old bio''"
  by (simp add: page_defs)

text \<open>
  C8, amended. An accepted submission with a provider client clears the error and sets
  \<open>loading\<close>, and keeps the stored biography as it is while the call is pending. The
  biography is replaced by the trimmed text when the call resolves, and emptied when the
  call fails or when there is no provider client.
\<close>

theorem submission_clears_error_keeps_result:
  "trim (bioInfo (ui s)) \<noteq> [] \<Longrightarrow>
     biography (ui (generateBiography True s)) = biography (ui s)
     \<and> error (ui (generateBiography True s)) = None
     \<and> loading (ui (generateBiography True s))
     \<and> biography (ui (generateBiography False s)) = []
     \<and> biography (generateBiography_resume (Resolves t) h) = trim t
     \<and> biography (generateBiography_resume (Rejects err) h) = []"
  by (simp add: generateBiography_def on_catch_def on_finally_def)

theorem submission_clears_error_keeps_result_witness:
  "trim (bioInfo (ui (run True [Edit (js ''Ada''), ClickGenerate,
                                Settle 0 (Resolves (js ''Old bio''))] sys0))) \<noteq> []
   \<and> biography (ui (generateBiography True
         (run True [Edit (js ''Ada''), ClickGenerate, Settle 0 (Resolves (js ''Old bio''))] sys0)))
       = js ''Old bio''
   \<and> biography (ui (generateBiography False
         (run True [Edit (js ''Ada''), ClickGenerate, Settle 0 (Resolves (js ''Old bio''))] sys0)))
       = []"
proof -
  have ne: "trim (bioInfo (ui (run True [Edit (js ''Ada''), ClickGenerate,
                                Settle 0 (Resolves (js ''Old bio''))] sys0))) \<noteq> []"
    by (simp add: page_defs)
  have old: "biography (ui (run True [Edit (js ''Ada''), ClickGenerate,
                                Settle 0 (Resolves (js ''Old bio''))] sys0)) = js ''Old bio''"
    by (simp add: page_defs)
  show ?thesis
    using submission_clears_error_keeps_result [OF ne] ne old by simp
qed


section \<open>The copy acknowledgement\<close>

text \<open>
  C9, as the claim states it, fails: copy at 0 ms and again at 1000 ms, both writes
  succeeding. The flag is set after the second copy, yet at 2000 ms the first timer runs
  and resets it, 1000 ms after the second copy, while the second timer is still waiting
  for 3000 ms.
\<close>

theorem second_copy_does_not_extend_counterexample:
  "copied (ui (run True [Edit (js ''Ada''), ClickGenerate, Settle 0 (Resolves (js ''Bio'')),
                         ClickCopy, WriteSettles 0 True, Advance 1000,
                         ClickCopy, WriteSettles 0 True] sys0))
   \<and> clock (run True [Edit (js ''Ada''), ClickGenerate, Settle 0 (Resolves (js ''Bio'')),
                       ClickCopy, WriteSettles 0 True, Advance 1000,
                       ClickCopy, WriteSettles 0 True, Advance 1000] sys0) = 2000
   \<and> \<not> copied (ui (run True [Edit (js ''Ada''), ClickGenerate, Settle 0 (Resolves (js ''Bio'')),
                         ClickCopy, WriteSettles 0 True, Advance 1000,
                         ClickCopy, WriteSettles 0 True, Advance 1000] sys0))
   \<and> timers (run True [Edit (js ''Ada''), ClickGenerate, Settle 0 (Resolves (js ''Bio'')),
                       ClickCopy, WriteSettles 0 True, Advance 1000,
                       ClickCopy, WriteSettles 0 True, Advance 1000] sys0) = [3000]"
  by (simp add: page_defs)

text \<open>
  C9, amended. When \<open>writeText\<close> succeeds, \<open>copied\<close> is set and one more timer is
  added, due 2000 ms later; the timers already waiting stay. When \<open>writeText\<close> fails
  nothing changes. When time passes, \<open>copied\<close> is reset as soon as any waiting timer is
  due, whichever copy started it. After a single copy with no timer waiting, the flag is
  set before 2000 ms have passed and reset from then on.
\<close>

theorem copy_timers_are_independent:
  "copyToClipboard_resume True written s
     = s\<lparr>clipboard := written, ui := (ui s)\<lparr>copied := True\<rparr>,
         timers := timers s @ [clock s + 2000]\<rparr>
   \<and> copyToClipboard_resume False written s = s
   \<and> ui (advance d s)
       = (if \<exists>t\<in>set (timers s). t \<le> clock s + d then (ui s)\<lparr>copied := False\<rparr> else ui s)
   \<and> (timers s = [] \<longrightarrow>
        copied (ui (advance d (copyToClipboard_resume True written s))) = (d < 2000))"
proof (intro conjI)
  show "ui (advance d s)
       = (if \<exists>t\<in>set (timers s). t \<le> clock s + d then (ui s)\<lparr>copied := False\<rparr> else ui s)"
    by (rule advance_ui)
  show "timers s = [] \<longrightarrow>
        copied (ui (advance d (copyToClipboard_resume True written s))) = (d < 2000)"
    by (auto simp add: advance_ui copyToClipboard_resume_def)
qed (simp_all add: copyToClipboard_resume_def)

theorem copy_timers_are_independent_witness:
  "timers sys0 = []
   \<and> copied (ui (advance 1999 (copyToClipboard_resume True (js ''Bio'') sys0)))
   \<and> \<not> copied (ui (advance 2000 (copyToClipboard_resume True (js ''Bio'') sys0)))
   \<and> (\<exists>t\<in>set (timers (copyToClipboard_resume True (js ''Bio'') sys0)).
         t \<le> clock (copyToClipboard_resume True (js ''Bio'') sys0) + 2000)"
proof -
  have t: "timers sys0 = []"
    by (simp add: sys0_def)
  show ?thesis
    using copy_timers_are_independent [where written = "js ''Bio''" and s = sys0 and d = 1999]
          copy_timers_are_independent [where written = "js ''Bio''" and s = sys0 and d = 2000] t
    by (simp add: copyToClipboard_resume_def)
qed


section \<open>The loading flag\<close>

text \<open>
  C10. Whatever the awaited call yields, the \<open>finally\<close> clause leaves \<open>loading\<close>
  false; so does an accepted submission without a provider client; so does the settling of
  any pending call. In every state that the page reaches, \<open>loading\<close> is true exactly
  while a call is pending.
\<close>

theorem loading_reset_when_settled:
  "\<not> loading (generateBiography_resume out h)
   \<and> (trim (bioInfo (ui s)) \<noteq> [] \<longrightarrow> \<not> loading (ui (generateBiography False s)))
   \<and> (i < length (pending s) \<longrightarrow> \<not> loading (ui (step genAI (Settle i out) s)))
   \<and> (loading (ui (run genAI es sys0)) \<longleftrightarrow> pending (run genAI es sys0) \<noteq> [])"
proof (intro conjI)
  show a: "\<not> loading (generateBiography_resume out h)" for h
    by (cases out) (simp_all add: on_catch_def on_finally_def)
  show "trim (bioInfo (ui s)) \<noteq> [] \<longrightarrow> \<not> loading (ui (generateBiography False s))"
    by (simp add: generateBiography_def on_catch_def on_finally_def)
  show "i < length (pending s) \<longrightarrow> \<not> loading (ui (step genAI (Settle i out) s))"
    using a by simp
  show "loading (ui (run genAI es sys0)) \<longleftrightarrow> pending (run genAI es sys0) \<noteq> []"
    using page_inv_reached [of genAI es] by (simp add: page_inv_def)
qed

theorem loading_reset_when_settled_witness:
  "trim (bioInfo (ui (step False (Edit (js ''Ada'')) sys0))) \<noteq> []
   \<and> \<not> loading (ui (generateBiography False (step False (Edit (js ''Ada'')) sys0)))
   \<and> 0 < length (pending (run True [Edit (js ''Ada''), ClickGenerate] sys0))
   \<and> loading (ui (run True [Edit (js ''Ada''), ClickGenerate] sys0))
   \<and> \<not> loading (ui (step True (Settle 0 (Resolves (js ''Bio'')))
                       (run True [Edit (js ''Ada''), ClickGenerate] sys0)))"
proof -
  have ne: "trim (bioInfo (ui (step False (Edit (js ''Ada'')) sys0))) \<noteq> []"
    by (simp add: trim_def js_def is_ws_def)
  have len: "0 < length (pending (run True [Edit (js ''Ada''), ClickGenerate] sys0))"
    by (simp add: page_defs)
  show ?thesis
    using loading_reset_when_settled
            [where out = "Resolves (js ''Bio'')"
               and s = "step False (Edit (js ''Ada'')) sys0"] ne
          loading_reset_when_settled
            [where out = "Resolves (js ''Bio'')" and i = 0 and genAI = True
               and s = "run True [Edit (js ''Ada''), ClickGenerate] sys0"
               and es = "[Edit (js ''Ada''), ClickGenerate]"] len
    by blast
qed

end
